theory Spec2Isabelle
  imports Complex_Main
begin

section \<open>Numbers, points and sizes\<close>

text \<open>
  The TypeScript sources compute with JavaScript numbers. In this development
  grid quantities (cell and area coordinates, ids, sizes in cells, millisecond
  time stamps) are integers and pixel quantities are reals; arithmetic is exact.
  A \<open>Vec2\<close> or \<open>Size\<close> is a pair: \<open>fst\<close> is \<open>x\<close> / \<open>width\<close>, \<open>snd\<close> is
  \<open>y\<close> / \<open>height\<close>.

  JavaScript division by zero yields \<open>Infinity\<close> or \<open>NaN\<close>, never an error, while
  HOL division by zero yields \<open>0\<close>. The functions below therefore describe the
  source only where every divisor is non-zero, and each theorem states the
  non-zero divisors it relies on.
\<close>

type_synonym Vec2 = "real \<times> real"
type_synonym CellPoint = "int \<times> int"

text \<open>\<open>Math.floor(a / b)\<close> on two integers.\<close>

definition floorDiv :: "int \<Rightarrow> int \<Rightarrow> int" where
  "floorDiv a b = \<lfloor>real_of_int a / real_of_int b\<rfloor>"

text \<open>\<open>Math.ceil(a / b)\<close> on two integers.\<close>

definition ceilDiv :: "int \<Rightarrow> int \<Rightarrow> int" where
  "ceilDiv a b = \<lceil>real_of_int a / real_of_int b\<rceil>"

text \<open>The remainder operator \<open>a % b\<close> of JavaScript: it truncates, so the
  result has the sign of the dividend.\<close>

definition jsRem :: "int \<Rightarrow> int \<Rightarrow> int" where
  "jsRem a b = sgn a * (\<bar>a\<bar> mod \<bar>b\<bar>)"

text \<open>\<open>Array.prototype.indexOf\<close>: the index of the first occurrence, \<open>-1\<close> when
  there is none.\<close>

fun indexOfFrom :: "int list \<Rightarrow> int \<Rightarrow> int \<Rightarrow> int" where
  "indexOfFrom [] v i = -1"
| "indexOfFrom (a # as) v i = (if a = v then i else indexOfFrom as v (i + 1))"

definition indexOf :: "int list \<Rightarrow> int \<Rightarrow> int" where
  "indexOf xs v = indexOfFrom xs v 0"

text \<open>A JavaScript number used as a condition is true unless it is zero.\<close>

definition truthy :: "int \<Rightarrow> bool" where
  "truthy n = (n \<noteq> 0)"

section \<open>MapUtil: the grid description and the coordinate engine\<close>

text \<open>The static fields of class \<open>MapUtil\<close>.\<close>

record MapUtil =
  mapPixelSize :: Vec2
  mapOffsetPoint :: Vec2
  tileSize :: Vec2
  mapSize :: "int \<times> int"
  zeroPixelPoint :: Vec2
  areaCellSize :: "int \<times> int"
  areaSize :: "int \<times> int"

text \<open>
  \<open>MapUtil.initMapConfig\<close>. What the source reads from the engine is passed in:
  the size and the anchor of the map node (\<open>uit\<close>), the tile size and the map
  size of the \<open>TiledMap\<close>, and the visible size of the view.
\<close>

definition initMapConfig :: "Vec2 \<Rightarrow> Vec2 \<Rightarrow> Vec2 \<Rightarrow> int \<times> int \<Rightarrow> Vec2 \<Rightarrow> MapUtil" where
  "initMapConfig uitSize anchor tile msize vsize =
     (let showH = min (\<lceil>snd vsize / snd tile / 2\<rceil> * 2 + 2) (snd msize)
      in \<lparr> mapPixelSize = uitSize,
           mapOffsetPoint = (fst uitSize * fst anchor, snd uitSize * snd anchor),
           tileSize = tile,
           mapSize = msize,
           zeroPixelPoint = (real_of_int (fst msize) * fst tile * 0.5,
                             real_of_int (snd msize) * snd tile - snd tile * 0.5),
           areaCellSize = (showH, showH),
           areaSize = (ceilDiv (fst msize) showH, ceilDiv (snd msize) showH) \<rparr>)"

definition areaCount :: "MapUtil \<Rightarrow> int" where
  "areaCount cfg = fst (areaSize cfg) * snd (areaSize cfg)"

definition getIdByAreaPoint :: "MapUtil \<Rightarrow> int \<Rightarrow> int \<Rightarrow> int" where
  "getIdByAreaPoint cfg ax ay = ax + ay * fst (areaSize cfg)"

definition getAreaPointById :: "MapUtil \<Rightarrow> int \<Rightarrow> int \<times> int" where
  "getAreaPointById cfg i = (jsRem i (fst (areaSize cfg)), floorDiv i (fst (areaSize cfg)))"

definition get9GridAreaIds :: "MapUtil \<Rightarrow> int \<Rightarrow> int list" where
  "get9GridAreaIds cfg i =
     (let w = fst (areaSize cfg)
      in [i + w - 1, i + w, i + w + 1,
          i - 1, i, i + 1,
          i - w - 1, i - w, i - w + 1])"

definition isVaildAreaId :: "MapUtil \<Rightarrow> int \<Rightarrow> bool" where
  "isVaildAreaId cfg i = (if i \<ge> 0 \<and> i < areaCount cfg then True else False)"

text \<open>The loop of \<open>get9GridVaildAreaIds\<close>: the elements of \<open>totalList\<close> are
  visited in order and the valid ones are pushed onto \<open>list\<close>.\<close>

fun pushVaildAreaIds :: "MapUtil \<Rightarrow> int list \<Rightarrow> int list \<Rightarrow> int list" where
  "pushVaildAreaIds cfg [] list = list"
| "pushVaildAreaIds cfg (a # totalList) list =
     pushVaildAreaIds cfg totalList (if isVaildAreaId cfg a then list @ [a] else list)"

definition get9GridVaildAreaIds :: "MapUtil \<Rightarrow> int \<Rightarrow> int list" where
  "get9GridVaildAreaIds cfg i = pushVaildAreaIds cfg (get9GridAreaIds cfg i) []"

definition getAreaPointByCellPoint :: "MapUtil \<Rightarrow> int \<Rightarrow> int \<Rightarrow> int \<times> int" where
  "getAreaPointByCellPoint cfg cx cy =
     (floorDiv cx (fst (areaCellSize cfg)), floorDiv cy (snd (areaCellSize cfg)))"

definition getAreaIdByCellPoint :: "MapUtil \<Rightarrow> int \<Rightarrow> int \<Rightarrow> int" where
  "getAreaIdByCellPoint cfg cx cy =
     (let point = getAreaPointByCellPoint cfg cx cy
      in getIdByAreaPoint cfg (fst point) (snd point))"

definition getStartCellPointByAreaPoint :: "MapUtil \<Rightarrow> int \<Rightarrow> int \<Rightarrow> int \<times> int" where
  "getStartCellPointByAreaPoint cfg ax ay =
     (ax * fst (areaCellSize cfg), ay * snd (areaCellSize cfg))"

definition getEndCellPointByAreaPoint :: "MapUtil \<Rightarrow> int \<Rightarrow> int \<Rightarrow> int \<times> int" where
  "getEndCellPointByAreaPoint cfg ax ay =
     ((ax + 1) * fst (areaCellSize cfg), (ay + 1) * snd (areaCellSize cfg))"

definition worldPixelToMapCellPoint :: "MapUtil \<Rightarrow> Vec2 \<Rightarrow> CellPoint" where
  "worldPixelToMapCellPoint cfg point =
     (let cx = \<lfloor>0.5 * real_of_int (snd (mapSize cfg))
                  + fst point / fst (tileSize cfg) - snd point / snd (tileSize cfg)\<rfloor>;
          cy = \<lfloor>1.5 * real_of_int (fst (mapSize cfg))
                  - fst point / fst (tileSize cfg) - snd point / snd (tileSize cfg)\<rfloor>
      in (cx, cy))"

definition mapCellToWorldPixelPoint :: "MapUtil \<Rightarrow> CellPoint \<Rightarrow> Vec2" where
  "mapCellToWorldPixelPoint cfg point =
     (let pixelX = fst (zeroPixelPoint cfg)
                     - real_of_int (snd point - fst point) * fst (tileSize cfg) * 0.5;
          pixelY = snd (zeroPixelPoint cfg)
                     - real_of_int (fst point + snd point) * snd (tileSize cfg) * 0.5
      in (pixelX, pixelY))"

definition mapCellToPixelPoint :: "MapUtil \<Rightarrow> CellPoint \<Rightarrow> Vec2" where
  "mapCellToPixelPoint cfg point =
     (let worldPoint = mapCellToWorldPixelPoint cfg point
      in (fst worldPoint - fst (mapOffsetPoint cfg), snd worldPoint - snd (mapOffsetPoint cfg)))"

definition mapPixelToCellPoint :: "MapUtil \<Rightarrow> Vec2 \<Rightarrow> CellPoint" where
  "mapPixelToCellPoint cfg point =
     (let worldPoint = (fst point + fst (mapOffsetPoint cfg), snd point + snd (mapOffsetPoint cfg))
      in worldPixelToMapCellPoint cfg worldPoint)"

text \<open>The loop of \<open>getVaildAreaIdsByPixelPoints\<close> over its argument points.\<close>

fun pushAreaIdsOfPoints :: "MapUtil \<Rightarrow> Vec2 list \<Rightarrow> int list \<Rightarrow> int list" where
  "pushAreaIdsOfPoints cfg [] list = list"
| "pushAreaIdsOfPoints cfg (p # points) list =
     (let cellPoint = mapPixelToCellPoint cfg p;
          areaPoint = getAreaPointByCellPoint cfg (fst cellPoint) (snd cellPoint);
          index = getIdByAreaPoint cfg (fst areaPoint) (snd areaPoint)
      in pushAreaIdsOfPoints cfg points
           (if isVaildAreaId cfg index \<and> indexOf list index = -1 then list @ [index] else list))"

definition getVaildAreaIdsByPixelPoints :: "MapUtil \<Rightarrow> Vec2 list \<Rightarrow> int list" where
  "getVaildAreaIdsByPixelPoints cfg points = pushAreaIdsOfPoints cfg points []"

section \<open>MapAreaData: the area descriptor\<close>

record MapAreaData =
  area_id :: int
  area_x :: int
  area_y :: int
  startCellX :: int
  startCellY :: int
  endCellX :: int
  endCellY :: int
  area_len :: int
  qryStartTime :: int

definition MAX_TIME :: int where
  "MAX_TIME = 10000"

text \<open>\<open>MapAreaData.checkAndUpdateQryTime\<close>; the value of \<open>Date.now()\<close> is the
  argument \<open>nowTime\<close>, and the descriptor is returned as the call leaves it.\<close>

definition checkAndUpdateQryTime :: "MapAreaData \<Rightarrow> int \<Rightarrow> bool \<times> MapAreaData" where
  "checkAndUpdateQryTime this nowTime =
     (if nowTime - qryStartTime this \<ge> MAX_TIME
      then (True, this\<lparr>qryStartTime := nowTime\<rparr>)
      else (False, this))"

text \<open>\<open>MapAreaData.fuzzyEquals\<close>; a \<open>null\<close> argument is \<open>None\<close>.\<close>

definition fuzzyEquals :: "MapAreaData \<Rightarrow> MapAreaData option \<Rightarrow> int \<Rightarrow> bool" where
  "fuzzyEquals this other variance =
     (case other of
        None \<Rightarrow> False
      | Some ot \<Rightarrow>
          (if area_x this - variance \<le> area_x ot \<and> area_x ot \<le> area_x this + variance
           then (if area_y this - variance \<le> area_y ot \<and> area_y ot \<le> area_y this + variance
                 then True else False)
           else False))"

section \<open>MapProxy: the area streaming cache\<close>

text \<open>
  The fields of class \<open>MapProxy\<close> that the operations below read or write.
  \<open>_curCenterPoint\<close> is \<open>null\<close> (\<open>None\<close>) until the first call;
  \<open>_mapAreaDatas\<close> is a JavaScript array read and written by id, where an
  absent entry reads as \<open>undefined\<close>: a partial map. The remaining fields of the
  class (war-free time, resource tables, position tags) are touched by none of
  these operations.
\<close>

record MapProxy =
  curCenterPoint :: "CellPoint option"
  curCenterAreaId :: int
  mapAreaDatas :: "int \<rightharpoonup> MapAreaData"
  qryAreaIds :: "int list"

text \<open>The state of a new \<open>MapProxy\<close>, from the field initialisers.\<close>

definition initialProxy :: MapProxy where
  "initialProxy = \<lparr> curCenterPoint = None, curCenterAreaId = -1,
                     mapAreaDatas = Map.empty, qryAreaIds = [] \<rparr>"

text \<open>The notifications sent through \<open>EventMgr.emit\<close>, with their arguments.\<close>

datatype LogicEvent =
    mapEenterChange CellPoint
  | mapShowAreaChange CellPoint int "int list" "int list"

text \<open>The descriptor that \<open>getMapAreaData\<close> builds when the entry is absent:
  \<open>new MapAreaData()\<close> followed by the assignments of the source.\<close>

definition newMapAreaData :: "MapUtil \<Rightarrow> int \<Rightarrow> MapAreaData" where
  "newMapAreaData cfg i =
     (let point = getAreaPointById cfg i;
          startCellPoint = getStartCellPointByAreaPoint cfg (fst point) (snd point)
      in \<lparr> area_id = i,
           area_x = fst point,
           area_y = snd point,
           startCellX = fst startCellPoint,
           startCellY = snd startCellPoint,
           endCellX = fst startCellPoint + fst (areaCellSize cfg),
           endCellY = snd startCellPoint + fst (areaCellSize cfg),
           area_len = fst (areaCellSize cfg),
           qryStartTime = 0 \<rparr>)"

definition getMapAreaData :: "MapUtil \<Rightarrow> MapProxy \<Rightarrow> int \<Rightarrow> MapAreaData \<times> MapProxy" where
  "getMapAreaData cfg s i =
     (case mapAreaDatas s i of
        None \<Rightarrow>
          (let data = newMapAreaData cfg i
           in (data, s\<lparr>mapAreaDatas := (mapAreaDatas s)(i \<mapsto> data)\<rparr>))
      | Some data \<Rightarrow> (data, s))"

text \<open>
  The three loops of \<open>setCurCenterPoint\<close> that fill \<open>addIds\<close>, \<open>removeIds\<close> and
  \<open>otherAreaIds\<close> have one shape: the elements of one array are visited in
  order and those whose \<open>indexOf\<close> in the other array is \<open>-1\<close> are pushed.
\<close>

fun pushNotIn :: "int list \<Rightarrow> int list \<Rightarrow> int list \<Rightarrow> int list" where
  "pushNotIn [] other out = out"
| "pushNotIn (a # as) other out =
     pushNotIn as other (if indexOf other a = -1 then out @ [a] else out)"

text \<open>The full-refresh branch (first load, or a large change of area): the
  areas under the centre and the four corners of the screen come first.\<close>

definition screenAreaIds :: "MapUtil \<Rightarrow> Vec2 \<Rightarrow> Vec2 \<Rightarrow> int list" where
  "screenAreaIds cfg vsize pixelPoint =
     (let leftTopPixelPoint = (fst pixelPoint + - fst vsize * 0.5, snd pixelPoint + snd vsize * 0.5);
          leftDownPixelPoint = (fst pixelPoint + - fst vsize * 0.5, snd pixelPoint + - snd vsize * 0.5);
          rightTopPixelPoint = (fst pixelPoint + fst vsize * 0.5, snd pixelPoint + snd vsize * 0.5);
          rightDownPixelPoint = (fst pixelPoint + fst vsize * 0.5, snd pixelPoint + - snd vsize * 0.5)
      in getVaildAreaIdsByPixelPoints cfg
           [pixelPoint, leftTopPixelPoint, leftDownPixelPoint, rightTopPixelPoint, rightDownPixelPoint])"

text \<open>The incremental branch: \<open>addIds\<close>, \<open>removeIds\<close> and \<open>firstAreaIds\<close>
  (\<open>None\<close> for \<open>null\<close>) from the new and the old neighbourhood. The source tests
  the number \<open>addIds.indexOf(areaData.id)\<close> itself as the condition.\<close>

definition incrementalIds :: "int list \<Rightarrow> int list \<Rightarrow> int \<Rightarrow> int list \<times> int list \<times> int list option" where
  "incrementalIds newIds oldIds centerId =
     (let addIds = pushNotIn newIds oldIds [];
          removeIds = pushNotIn oldIds newIds [];
          firstAreaIds = (if truthy (indexOf addIds centerId) then Some [centerId] else None)
      in (addIds, removeIds, firstAreaIds))"

text \<open>The split into priority and other areas and the query list built from
  them (\<open>qryIndexs\<close>).\<close>

definition buildQryIndexs :: "int list option \<Rightarrow> int list \<Rightarrow> int list" where
  "buildQryIndexs firstAreaIds addIds =
     (case firstAreaIds of
        None \<Rightarrow> addIds
      | Some first \<Rightarrow>
          (if length first > 0 then first @ pushNotIn addIds first [] else addIds))"

text \<open>
  \<open>MapProxy.setCurCenterPoint\<close>. The visible size of the view is the argument
  \<open>vsize\<close>. The result is the returned boolean, the state after the call and
  the notifications emitted, in order.
\<close>

definition setCurCenterPoint ::
  "MapUtil \<Rightarrow> Vec2 \<Rightarrow> MapProxy \<Rightarrow> CellPoint \<Rightarrow> Vec2 \<Rightarrow> bool \<times> MapProxy \<times> LogicEvent list" where
  "setCurCenterPoint cfg vsize s point pixelPoint =
     (if (case curCenterPoint s of
            None \<Rightarrow> True
          | Some c \<Rightarrow> fst c \<noteq> fst point \<or> snd c \<noteq> snd point)
      then
        (let s1 = s\<lparr>curCenterPoint := Some point\<rparr>;
             areaPoint = getAreaPointByCellPoint cfg (fst point) (snd point);
             areaId = getIdByAreaPoint cfg (fst areaPoint) (snd areaPoint);
             ev1 = [mapEenterChange point]
         in if curCenterAreaId s1 = -1 \<or> curCenterAreaId s1 \<noteq> areaId
            then
              (let (areaData, s2) = getMapAreaData cfg s1 areaId;
                   newIds = get9GridVaildAreaIds cfg (area_id areaData);
                   (full, s3) =
                     (if curCenterAreaId s2 = -1 then (True, s2)
                      else (let (oldData, s') = getMapAreaData cfg s2 (curCenterAreaId s2)
                            in (fuzzyEquals oldData (Some areaData) 3 = False, s')));
                   (addIds, removeIds, firstAreaIds) =
                     (if full
                      then (newIds, [], Some (screenAreaIds cfg vsize pixelPoint))
                      else incrementalIds newIds
                             (get9GridVaildAreaIds cfg (curCenterAreaId s3)) (area_id areaData));
                   qryIndexs = buildQryIndexs firstAreaIds addIds;
                   s4 = s3\<lparr>qryAreaIds := qryAreaIds s3 @ qryIndexs, curCenterAreaId := areaId\<rparr>
               in (True, s4, ev1 @ [mapShowAreaChange point areaId addIds removeIds]))
            else (True, s1, ev1))
      else (False, s, []))"

text \<open>
  Every descriptor in the store was built by \<open>getMapAreaData\<close> for its own key;
  only its time stamp may have been changed since (by \<open>checkAndUpdateQryTime\<close>).
\<close>

definition storeOk :: "MapUtil \<Rightarrow> MapProxy \<Rightarrow> bool" where
  "storeOk cfg s = (\<forall>k d. mapAreaDatas s k = Some d \<longrightarrow> d\<lparr>qryStartTime := 0\<rparr> = newMapAreaData cfg k)"

text \<open>An example: tiles of 256 by 128 pixels, a map of 20 by 20 cells and a
  view of 1280 by 720 pixels.\<close>

definition exampleCfg :: MapUtil where
  "exampleCfg = initMapConfig (5120, 2560) (0.5, 0.5) (256, 128) (20, 20) (1280, 720)"

definition exampleView :: Vec2 where
  "exampleView = (1280, 720)"

text \<open>Two states of the cache in the example, each reached from the initial
  state by one call (lemmas \<open>centredAt00_reached\<close> and \<open>centredAt88_reached\<close>
  below): the centre on cell (0, 0), in area 0, and on cell (8, 8), in area 4.\<close>

definition centredAt00 :: MapProxy where
  "centredAt00 = \<lparr> curCenterPoint = Some (0, 0), curCenterAreaId = 0,
                    mapAreaDatas = [0 \<mapsto> newMapAreaData exampleCfg 0],
                    qryAreaIds = [0, 2, 3, 4, 1] \<rparr>"

definition centredAt88 :: MapProxy where
  "centredAt88 = \<lparr> curCenterPoint = Some (8, 8), curCenterAreaId = 4,
                    mapAreaDatas = [4 \<mapsto> newMapAreaData exampleCfg 4],
                    qryAreaIds = [4, 3, 1, 6, 7, 8, 5, 0, 2] \<rparr>"

section \<open>Facts about the helpers\<close>

lemma floorDiv_div: "floorDiv a b = a div b"
  by (simp add: floorDiv_def floor_divide_of_int_eq)

lemma indexOfFrom_absent: "0 \<le> i \<Longrightarrow> (indexOfFrom xs v i = -1) = (v \<notin> set xs)"
proof (induction xs arbitrary: i)
  case Nil
  then show ?case by simp
next
  case (Cons a xs)
  then show ?case by auto
qed

lemma indexOf_absent: "(indexOf xs v = -1) = (v \<notin> set xs)"
  by (simp add: indexOf_def indexOfFrom_absent)

lemma pushNotIn_filter: "pushNotIn xs other out = out @ filter (\<lambda>a. a \<notin> set other) xs"
  by (induction xs arbitrary: out) (simp_all add: indexOf_absent)

lemma pushVaildAreaIds_filter:
  "pushVaildAreaIds cfg xs out = out @ filter (isVaildAreaId cfg) xs"
  by (induction xs arbitrary: out) simp_all

lemma exampleCfg_fields:
  "areaCellSize exampleCfg = (8, 8)" "areaSize exampleCfg = (3, 3)"
  "mapSize exampleCfg = (20, 20)" "tileSize exampleCfg = (256, 128)"
  "mapOffsetPoint exampleCfg = (2560, 1280)" "zeroPixelPoint exampleCfg = (2560, 2496)"
  by (simp_all add: exampleCfg_def initMapConfig_def Let_def ceilDiv_def)

lemma newMapAreaData_qry: "qryStartTime (newMapAreaData cfg i) = 0"
  by (simp add: newMapAreaData_def Let_def)

lemma areaSide_eq:
  "fst (areaCellSize (initMapConfig uit anchor tile msize vsize)) =
     min (\<lceil>snd vsize / snd tile / 2\<rceil> * 2 + 2) (snd msize)"
  by (simp add: initMapConfig_def Let_def)

lemma twice_ceiling_half: "\<lceil>r\<rceil> \<le> \<lceil>r / 2\<rceil> * 2" for r :: real
proof -
  have a: "r / 2 \<le> real_of_int \<lceil>r / 2\<rceil>" by (rule le_of_int_ceiling)
  have b: "real_of_int (\<lceil>r / 2\<rceil> * 2) = real_of_int \<lceil>r / 2\<rceil> * 2" by simp
  from a b have "r \<le> real_of_int (\<lceil>r / 2\<rceil> * 2)" by linarith
  then show ?thesis by (simp only: ceiling_le_iff)
qed

lemma initMapConfig_fields:
  "mapOffsetPoint (initMapConfig uit anchor tile msize vsize) =
     (fst uit * fst anchor, snd uit * snd anchor)"
  "tileSize (initMapConfig uit anchor tile msize vsize) = tile"
  "mapSize (initMapConfig uit anchor tile msize vsize) = msize"
  "zeroPixelPoint (initMapConfig uit anchor tile msize vsize) =
     (real_of_int (fst msize) * fst tile * 0.5,
      real_of_int (snd msize) * snd tile - snd tile * 0.5)"
  by (simp_all add: initMapConfig_def Let_def)

lemma exampleCfg_get9:
  "get9GridVaildAreaIds exampleCfg 0 = [2, 3, 4, 0, 1]"
  "get9GridVaildAreaIds exampleCfg 4 = [6, 7, 8, 3, 4, 5, 0, 1, 2]"
  "get9GridVaildAreaIds exampleCfg 5 = [7, 8, 4, 5, 6, 1, 2, 3]"
  "get9GridVaildAreaIds exampleCfg 8 = [7, 8, 4, 5, 6]"
  by (simp_all add: get9GridVaildAreaIds_def get9GridAreaIds_def isVaildAreaId_def
      areaCount_def Let_def exampleCfg_fields)

lemma exampleCfg_areaId:
  "getAreaIdByCellPoint exampleCfg 0 0 = 0"
  "getAreaIdByCellPoint exampleCfg 8 8 = 4"
  "getAreaIdByCellPoint exampleCfg 9 8 = 4"
  "getAreaIdByCellPoint exampleCfg 16 8 = 5"
  "getAreaIdByCellPoint exampleCfg 16 16 = 8"
  by (simp_all add: getAreaIdByCellPoint_def getAreaPointByCellPoint_def getIdByAreaPoint_def
      floorDiv_div Let_def exampleCfg_fields)

lemma exampleCfg_areaPoint:
  "getAreaPointById exampleCfg 0 = (0, 0)"
  "getAreaPointById exampleCfg 4 = (1, 1)"
  "getAreaPointById exampleCfg 5 = (2, 1)"
  "getAreaPointById exampleCfg 8 = (2, 2)"
  by (simp_all add: getAreaPointById_def jsRem_def floorDiv_div exampleCfg_fields)

lemma exampleCfg_pixel:
  "mapCellToPixelPoint exampleCfg (0, 0) = (0, 1216)"
  "mapCellToPixelPoint exampleCfg (8, 8) = (0, 192)"
  by (simp_all add: mapCellToPixelPoint_def mapCellToWorldPixelPoint_def Let_def
      exampleCfg_fields)

lemma exampleCfg_screen:
  "screenAreaIds exampleCfg exampleView (0, 1216) = [0]"
  "screenAreaIds exampleCfg exampleView (0, 192) = [4, 3, 1]"
  by (simp_all add: screenAreaIds_def getVaildAreaIdsByPixelPoints_def exampleView_def Let_def
      mapPixelToCellPoint_def worldPixelToMapCellPoint_def getAreaPointByCellPoint_def
      getIdByAreaPoint_def isVaildAreaId_def areaCount_def floorDiv_div indexOf_def
      exampleCfg_fields)

lemma newMapAreaData_coords:
  "area_id (newMapAreaData cfg i) = i"
  "area_x (newMapAreaData cfg i) = fst (getAreaPointById cfg i)"
  "area_y (newMapAreaData cfg i) = snd (getAreaPointById cfg i)"
  by (simp_all add: newMapAreaData_def Let_def)

lemma newMapAreaData_reset:
  "(newMapAreaData cfg i)\<lparr>qryStartTime := 0\<rparr> = newMapAreaData cfg i"
  by (simp add: newMapAreaData_def Let_def)

subsection \<open>The descriptor store\<close>

lemma storeOk_initial: "storeOk cfg initialProxy"
  by (simp add: storeOk_def initialProxy_def)

lemma storeOk_centredAt00: "storeOk exampleCfg centredAt00"
  by (simp add: storeOk_def centredAt00_def newMapAreaData_reset)

lemma storeOk_centredAt88: "storeOk exampleCfg centredAt88"
  by (simp add: storeOk_def centredAt88_def newMapAreaData_reset)

lemma storeOk_center: "storeOk cfg (s\<lparr>curCenterPoint := p\<rparr>) = storeOk cfg s"
  by (simp add: storeOk_def)

lemma storeOk_queue:
  "storeOk cfg (s\<lparr>qryAreaIds := q, curCenterAreaId := a\<rparr>) = storeOk cfg s"
  by (simp add: storeOk_def)

lemma getMapAreaData_storeOk:
  assumes "storeOk cfg s"
  shows "storeOk cfg (snd (getMapAreaData cfg s i))"
  using assms
  by (auto simp add: getMapAreaData_def storeOk_def Let_def newMapAreaData_def
      split: option.splits)

lemma getMapAreaData_fst:
  assumes "storeOk cfg s"
  shows "(fst (getMapAreaData cfg s i))\<lparr>qryStartTime := 0\<rparr> = newMapAreaData cfg i"
  using assms
  by (auto simp add: getMapAreaData_def storeOk_def Let_def newMapAreaData_def
      split: option.splits)

lemma getMapAreaData_again:
  "getMapAreaData cfg (snd (getMapAreaData cfg s i)) i = getMapAreaData cfg s i"
  by (auto simp add: getMapAreaData_def Let_def split: option.splits)

lemma getMapAreaData_keeps:
  "mapAreaDatas s k = Some d \<Longrightarrow> mapAreaDatas (snd (getMapAreaData cfg s i)) k = Some d"
  by (auto simp add: getMapAreaData_def Let_def split: option.splits)

lemma getMapAreaData_frame:
  "curCenterPoint (snd (getMapAreaData cfg s i)) = curCenterPoint s"
  "curCenterAreaId (snd (getMapAreaData cfg s i)) = curCenterAreaId s"
  "qryAreaIds (snd (getMapAreaData cfg s i)) = qryAreaIds s"
  by (simp_all add: getMapAreaData_def Let_def split: option.splits)

lemma getMapAreaData_coords:
  assumes "storeOk cfg s"
  shows "area_id (fst (getMapAreaData cfg s i)) = i"
    and "area_x (fst (getMapAreaData cfg s i)) = fst (getAreaPointById cfg i)"
    and "area_y (fst (getMapAreaData cfg s i)) = snd (getAreaPointById cfg i)"
proof -
  note eq = getMapAreaData_fst [OF assms, of i]
  show "area_id (fst (getMapAreaData cfg s i)) = i"
    using arg_cong [OF eq, of area_id] by (simp add: newMapAreaData_def Let_def)
  show "area_x (fst (getMapAreaData cfg s i)) = fst (getAreaPointById cfg i)"
    using arg_cong [OF eq, of area_x] by (simp add: newMapAreaData_def Let_def)
  show "area_y (fst (getMapAreaData cfg s i)) = snd (getAreaPointById cfg i)"
    using arg_cong [OF eq, of area_y] by (simp add: newMapAreaData_def Let_def)
qed

subsection \<open>The branches of setCurCenterPoint\<close>

lemma moved_cond:
  "(case curCenterPoint s of None \<Rightarrow> True
     | Some c \<Rightarrow> fst c \<noteq> fst point \<or> snd c \<noteq> snd point)
     = (curCenterPoint s \<noteq> Some point)"
  by (cases "curCenterPoint s") (auto simp add: prod_eq_iff)

lemma fuzzyEquals_coords:
  "fuzzyEquals a (Some b) v = (\<bar>area_x b - area_x a\<bar> \<le> v \<and> \<bar>area_y b - area_y a\<bar> \<le> v)"
  by (auto simp add: fuzzyEquals_def)

text \<open>The first area transition, from the unset centre: a full refresh.\<close>

lemma setCurCenterPoint_first:
  assumes ok: "storeOk cfg s"
    and moved: "curCenterPoint s \<noteq> Some point"
    and aid: "areaId = getAreaIdByCellPoint cfg (fst point) (snd point)"
    and unset: "curCenterAreaId s = -1"
  shows "fst (setCurCenterPoint cfg vsize s point pixelPoint) = True"
    and "snd (snd (setCurCenterPoint cfg vsize s point pixelPoint)) =
           [mapEenterChange point,
            mapShowAreaChange point areaId (get9GridVaildAreaIds cfg areaId) []]"
    and "qryAreaIds (fst (snd (setCurCenterPoint cfg vsize s point pixelPoint))) =
           qryAreaIds s @ buildQryIndexs (Some (screenAreaIds cfg vsize pixelPoint))
                            (get9GridVaildAreaIds cfg areaId)"
    and "curCenterAreaId (fst (snd (setCurCenterPoint cfg vsize s point pixelPoint))) = areaId"
    and "storeOk cfg (fst (snd (setCurCenterPoint cfg vsize s point pixelPoint)))"
proof -
  let ?s1 = "s\<lparr>curCenterPoint := Some point\<rparr>"
  let ?g1 = "getMapAreaData cfg ?s1 areaId"
  have ok1: "storeOk cfg ?s1" using ok by (simp add: storeOk_center)
  have ok2: "storeOk cfg (snd ?g1)" using ok1 by (rule getMapAreaData_storeOk)
  have aid': "getIdByAreaPoint cfg (fst (getAreaPointByCellPoint cfg (fst point) (snd point)))
                (snd (getAreaPointByCellPoint cfg (fst point) (snd point))) = areaId"
    by (simp add: aid getAreaIdByCellPoint_def Let_def)
  have res: "setCurCenterPoint cfg vsize s point pixelPoint =
     (True,
      (snd ?g1)\<lparr>qryAreaIds := qryAreaIds s
                    @ buildQryIndexs (Some (screenAreaIds cfg vsize pixelPoint))
                        (get9GridVaildAreaIds cfg areaId),
                 curCenterAreaId := areaId\<rparr>,
      [mapEenterChange point,
       mapShowAreaChange point areaId (get9GridVaildAreaIds cfg areaId) []])"
    using unset
    by (simp add: setCurCenterPoint_def moved_cond moved Let_def aid' case_prod_beta
        getMapAreaData_frame getMapAreaData_coords [OF ok1])
  show "fst (setCurCenterPoint cfg vsize s point pixelPoint) = True" by (simp add: res)
  show "snd (snd (setCurCenterPoint cfg vsize s point pixelPoint)) =
           [mapEenterChange point,
            mapShowAreaChange point areaId (get9GridVaildAreaIds cfg areaId) []]"
    by (simp add: res)
  show "qryAreaIds (fst (snd (setCurCenterPoint cfg vsize s point pixelPoint))) =
           qryAreaIds s @ buildQryIndexs (Some (screenAreaIds cfg vsize pixelPoint))
                            (get9GridVaildAreaIds cfg areaId)"
    by (simp add: res)
  show "curCenterAreaId (fst (snd (setCurCenterPoint cfg vsize s point pixelPoint))) = areaId"
    by (simp add: res)
  show "storeOk cfg (fst (snd (setCurCenterPoint cfg vsize s point pixelPoint)))"
    using ok2 by (simp add: res storeOk_queue)
qed

text \<open>An area transition between two areas whose coordinates differ by at
  most 3 in each axis: the incremental update.\<close>

lemma setCurCenterPoint_pan:
  assumes ok: "storeOk cfg s"
    and moved: "curCenterPoint s \<noteq> Some point"
    and aid: "areaId = getAreaIdByCellPoint cfg (fst point) (snd point)"
    and prev: "curCenterAreaId s \<noteq> -1"
    and other: "curCenterAreaId s \<noteq> areaId"
    and nearx: "\<bar>fst (getAreaPointById cfg areaId)
                  - fst (getAreaPointById cfg (curCenterAreaId s))\<bar> \<le> 3"
    and neary: "\<bar>snd (getAreaPointById cfg areaId)
                  - snd (getAreaPointById cfg (curCenterAreaId s))\<bar> \<le> 3"
    and adds: "adds = filter (\<lambda>i. i \<notin> set (get9GridVaildAreaIds cfg (curCenterAreaId s)))
                        (get9GridVaildAreaIds cfg areaId)"
    and rems: "rems = filter (\<lambda>i. i \<notin> set (get9GridVaildAreaIds cfg areaId))
                        (get9GridVaildAreaIds cfg (curCenterAreaId s))"
  shows "fst (setCurCenterPoint cfg vsize s point pixelPoint) = True"
    and "snd (snd (setCurCenterPoint cfg vsize s point pixelPoint)) =
           [mapEenterChange point, mapShowAreaChange point areaId adds rems]"
    and "qryAreaIds (fst (snd (setCurCenterPoint cfg vsize s point pixelPoint))) =
           qryAreaIds s
           @ buildQryIndexs (if truthy (indexOf adds areaId) then Some [areaId] else None) adds"
    and "curCenterAreaId (fst (snd (setCurCenterPoint cfg vsize s point pixelPoint))) = areaId"
    and "storeOk cfg (fst (snd (setCurCenterPoint cfg vsize s point pixelPoint)))"
proof -
  let ?s1 = "s\<lparr>curCenterPoint := Some point\<rparr>"
  let ?g1 = "getMapAreaData cfg ?s1 areaId"
  let ?g2 = "getMapAreaData cfg (snd ?g1) (curCenterAreaId s)"
  have ok1: "storeOk cfg ?s1" using ok by (simp add: storeOk_center)
  have ok2: "storeOk cfg (snd ?g1)" using ok1 by (rule getMapAreaData_storeOk)
  have ok3: "storeOk cfg (snd ?g2)" using ok2 by (rule getMapAreaData_storeOk)
  have near: "fuzzyEquals (fst ?g2) (Some (fst ?g1)) 3"
    using nearx neary
    by (simp add: fuzzyEquals_coords getMapAreaData_coords [OF ok1]
        getMapAreaData_coords [OF ok2])
  have aid': "getIdByAreaPoint cfg (fst (getAreaPointByCellPoint cfg (fst point) (snd point)))
                (snd (getAreaPointByCellPoint cfg (fst point) (snd point))) = areaId"
    by (simp add: aid getAreaIdByCellPoint_def Let_def)
  have res: "setCurCenterPoint cfg vsize s point pixelPoint =
     (True,
      (snd ?g2)\<lparr>qryAreaIds := qryAreaIds s
                    @ buildQryIndexs
                        (if truthy (indexOf adds areaId) then Some [areaId] else None) adds,
                 curCenterAreaId := areaId\<rparr>,
      [mapEenterChange point, mapShowAreaChange point areaId adds rems])"
    using prev other near
    by (simp add: setCurCenterPoint_def moved_cond moved Let_def aid' case_prod_beta
        getMapAreaData_frame getMapAreaData_coords [OF ok1] incrementalIds_def
        pushNotIn_filter adds rems)
  show "fst (setCurCenterPoint cfg vsize s point pixelPoint) = True" by (simp add: res)
  show "snd (snd (setCurCenterPoint cfg vsize s point pixelPoint)) =
           [mapEenterChange point, mapShowAreaChange point areaId adds rems]"
    by (simp add: res)
  show "qryAreaIds (fst (snd (setCurCenterPoint cfg vsize s point pixelPoint))) =
           qryAreaIds s
           @ buildQryIndexs (if truthy (indexOf adds areaId) then Some [areaId] else None) adds"
    by (simp add: res)
  show "curCenterAreaId (fst (snd (setCurCenterPoint cfg vsize s point pixelPoint))) = areaId"
    by (simp add: res)
  show "storeOk cfg (fst (snd (setCurCenterPoint cfg vsize s point pixelPoint)))"
    using ok3 by (simp add: res storeOk_queue)
qed

text \<open>The store invariant holds after every call.\<close>

lemma setCurCenterPoint_storeOk:
  assumes "storeOk cfg s"
  shows "storeOk cfg (fst (snd (setCurCenterPoint cfg vsize s point pixelPoint)))"
proof -
  have a: "\<And>t i. storeOk cfg t \<Longrightarrow> storeOk cfg (snd (getMapAreaData cfg t i))"
    by (rule getMapAreaData_storeOk)
  show ?thesis
    using assms
    by (auto simp add: setCurCenterPoint_def Let_def case_prod_beta storeOk_center
        storeOk_queue a split: option.splits)
qed

text \<open>The two example states are reached from the initial state.\<close>

lemma centredAt00_reached:
  "setCurCenterPoint exampleCfg exampleView initialProxy (0, 0)
       (mapCellToPixelPoint exampleCfg (0, 0))
     = (True, centredAt00,
        [mapEenterChange (0, 0), mapShowAreaChange (0, 0) 0 [2, 3, 4, 0, 1] []])"
  using exampleCfg_areaId(1)
  by (simp add: setCurCenterPoint_def initialProxy_def centredAt00_def Let_def
      getAreaIdByCellPoint_def getMapAreaData_def newMapAreaData_coords buildQryIndexs_def
      exampleCfg_get9 exampleCfg_pixel exampleCfg_screen pushNotIn_filter)

lemma centredAt88_reached:
  "setCurCenterPoint exampleCfg exampleView initialProxy (8, 8)
       (mapCellToPixelPoint exampleCfg (8, 8))
     = (True, centredAt88,
        [mapEenterChange (8, 8),
         mapShowAreaChange (8, 8) 4 [6, 7, 8, 3, 4, 5, 0, 1, 2] []])"
  using exampleCfg_areaId(2)
  by (simp add: setCurCenterPoint_def initialProxy_def centredAt88_def Let_def
      getAreaIdByCellPoint_def getMapAreaData_def newMapAreaData_coords buildQryIndexs_def
      exampleCfg_get9 exampleCfg_pixel exampleCfg_screen pushNotIn_filter)

subsection \<open>Arithmetic\<close>

lemma floor_int_plus_half: "\<lfloor>real_of_int k + 1 / 2\<rfloor> = k"
  by linarith

lemma scaled_abs_less:
  fixes t e :: real
  assumes "0 < t" "\<bar>e\<bar> \<le> 1 / 2"
  shows "\<bar>t * e\<bar> < t" "\<bar>t * e\<bar> \<le> t"
proof -
  have "\<bar>t * e\<bar> = t * \<bar>e\<bar>" using assms(1) by (simp add: abs_mult)
  also have "\<dots> \<le> t * (1 / 2)" using assms by (intro mult_left_mono) simp_all
  finally have h: "\<bar>t * e\<bar> \<le> t / 2" by simp
  from h assms(1) show "\<bar>t * e\<bar> < t" by linarith
  from h assms(1) show "\<bar>t * e\<bar> \<le> t" by linarith
qed

section \<open>The area side length\<close>

text \<open>
  Claim C3, as the specification states it: for every viewport height, tile
  height and map height the area side computed by \<open>initMapConfig\<close> is even, is
  at least 2 more than \<open>ceil(viewportHeight / tileHeight)\<close>, and does not
  exceed the map height. This fails where the minimum with the map height
  takes effect: on a map of 5 by 5 cells with tiles 128 pixels high and a view
  720 pixels high the side is 5, which is odd and less than \<open>6 + 2\<close>.
\<close>

theorem areaSide_small_map_counterexample:
  "\<not> (even (fst (areaCellSize (initMapConfig (1280, 640) (0.5, 0.5) (256, 128) (5, 5) (1280, 720))))
      \<and> \<lceil>720 / (128::real)\<rceil> + 2
           \<le> fst (areaCellSize (initMapConfig (1280, 640) (0.5, 0.5) (256, 128) (5, 5) (1280, 720)))
      \<and> fst (areaCellSize (initMapConfig (1280, 640) (0.5, 0.5) (256, 128) (5, 5) (1280, 720))) \<le> 5)"
  by (simp add: areaSide_eq)

text \<open>
  Claim C3, amended: for a non-zero tile height, the area side never exceeds
  the map height; and whenever the size derived from the screen,
  \<open>ceil(viewportHeight / tileHeight / 2) * 2 + 2\<close>, does not exceed the map
  height, the area side is even and at least 2 more than
  \<open>ceil(viewportHeight / tileHeight)\<close>.
\<close>

theorem areaSide_bounds:
  assumes "snd tile \<noteq> 0"
  shows "fst (areaCellSize (initMapConfig uit anchor tile msize vsize)) \<le> snd msize
     \<and> (\<lceil>snd vsize / snd tile / 2\<rceil> * 2 + 2 \<le> snd msize \<longrightarrow>
          even (fst (areaCellSize (initMapConfig uit anchor tile msize vsize)))
          \<and> \<lceil>snd vsize / snd tile\<rceil> + 2
               \<le> fst (areaCellSize (initMapConfig uit anchor tile msize vsize)))"
  using twice_ceiling_half [of "snd vsize / snd tile"]
  by (simp add: areaSide_eq)

theorem areaSide_bounds_witness:
  "(128::real) \<noteq> 0 \<and> \<lceil>720 / (128::real) / 2\<rceil> * 2 + 2 \<le> (20::int)
   \<and> fst (areaCellSize exampleCfg) \<le> 20 \<and> even (fst (areaCellSize exampleCfg))
   \<and> \<lceil>720 / (128::real)\<rceil> + 2 \<le> fst (areaCellSize exampleCfg)"
  using areaSide_bounds [of "(256, 128)" "(5120, 2560)" "(0.5, 0.5)" "(20, 20)" "(1280, 720)"]
  by (simp add: exampleCfg_def)

section \<open>The throttle\<close>

text \<open>
  Claim C5, as the specification states it, ends: two calls on the same
  descriptor 5 seconds apart have the second return false. This fails when the
  first of the two calls is itself refused: a descriptor is queried at time
  1700000000000, the check is refused 6 seconds later, and the check 5 seconds
  after that refusal is 11 seconds after the stored time stamp and succeeds.
\<close>

theorem throttle_after_refusal_counterexample:
  "\<not> (fst (checkAndUpdateQryTime
             (snd (checkAndUpdateQryTime
                     (snd (checkAndUpdateQryTime (newMapAreaData exampleCfg 0) 1700000000000))
                     1700000006000))
             (1700000006000 + 5000)) = False)"
  by (simp add: checkAndUpdateQryTime_def MAX_TIME_def newMapAreaData_qry)

text \<open>
  Claim C5, amended: for every descriptor and call time \<open>t\<close> the check returns
  true if and only if \<open>t\<close> minus the stored time stamp is at least 10000
  milliseconds, and it sets the stored time stamp to \<open>t\<close> when it returns true
  and leaves the descriptor as it is otherwise; consequently, when the first of
  two calls on the same descriptor returns true, a second call 5 seconds later
  returns false and a second call 11 seconds later returns true.
\<close>

theorem throttle_check:
  "fst (checkAndUpdateQryTime d t) = (t - qryStartTime d \<ge> 10000)
   \<and> snd (checkAndUpdateQryTime d t) =
        (if fst (checkAndUpdateQryTime d t) then d\<lparr>qryStartTime := t\<rparr> else d)
   \<and> (fst (checkAndUpdateQryTime d t) \<longrightarrow>
        \<not> fst (checkAndUpdateQryTime (snd (checkAndUpdateQryTime d t)) (t + 5000))
        \<and> fst (checkAndUpdateQryTime (snd (checkAndUpdateQryTime d t)) (t + 11000)))"
  by (simp add: checkAndUpdateQryTime_def MAX_TIME_def)

theorem throttle_check_witness:
  "fst (checkAndUpdateQryTime (newMapAreaData exampleCfg 0) 1700000000000)
   \<and> \<not> fst (checkAndUpdateQryTime
              (snd (checkAndUpdateQryTime (newMapAreaData exampleCfg 0) 1700000000000))
              (1700000000000 + 5000))
   \<and> fst (checkAndUpdateQryTime
            (snd (checkAndUpdateQryTime (newMapAreaData exampleCfg 0) 1700000000000))
            (1700000000000 + 11000))"
proof -
  have first: "fst (checkAndUpdateQryTime (newMapAreaData exampleCfg 0) 1700000000000)"
    by (simp add: checkAndUpdateQryTime_def MAX_TIME_def newMapAreaData_qry)
  with throttle_check [of "newMapAreaData exampleCfg 0" 1700000000000] show ?thesis
    by blast
qed

section \<open>Coordinate round trips\<close>

text \<open>
  Claim C6: on a square map (\<open>m\<close> by \<open>m\<close> cells) with non-zero tile width and
  height, for every integer cell coordinate \<open>c\<close>,
  \<open>mapPixelToCellPoint (mapCellToPixelPoint c)\<close> is exactly \<open>c\<close>.
\<close>

theorem cell_pixel_roundtrip:
  assumes "tw \<noteq> 0" "th \<noteq> 0"
  shows "mapPixelToCellPoint (initMapConfig uit anchor (tw, th) (m, m) vsize)
           (mapCellToPixelPoint (initMapConfig uit anchor (tw, th) (m, m) vsize) c) = c"
proof -
  let ?cfg = "initMapConfig uit anchor (tw, th) (m, m) vsize"
  obtain cx cy where c: "c = (cx, cy)" by (cases c)
  have x: "real_of_int m / 2
            + (real_of_int m * tw / 2 - real_of_int (cy - cx) * tw / 2) / tw
            - (real_of_int m * th - th / 2 - real_of_int (cx + cy) * th / 2) / th
           = real_of_int cx + 1 / 2"
    using assms by (simp add: field_simps)
  have y: "3 * real_of_int m / 2
            - (real_of_int m * tw / 2 - real_of_int (cy - cx) * tw / 2) / tw
            - (real_of_int m * th - th / 2 - real_of_int (cx + cy) * th / 2) / th
           = real_of_int cy + 1 / 2"
    using assms by (simp add: field_simps)
  have "mapPixelToCellPoint ?cfg (mapCellToPixelPoint ?cfg (cx, cy)) =
      (\<lfloor>real_of_int m / 2
            + (real_of_int m * tw / 2 - real_of_int (cy - cx) * tw / 2) / tw
            - (real_of_int m * th - th / 2 - real_of_int (cx + cy) * th / 2) / th\<rfloor>,
       \<lfloor>3 * real_of_int m / 2
            - (real_of_int m * tw / 2 - real_of_int (cy - cx) * tw / 2) / tw
            - (real_of_int m * th - th / 2 - real_of_int (cx + cy) * th / 2) / th\<rfloor>)"
    by (simp add: mapPixelToCellPoint_def mapCellToPixelPoint_def worldPixelToMapCellPoint_def
        mapCellToWorldPixelPoint_def initMapConfig_fields Let_def
        del: of_int_diff of_int_add)
  also have "\<dots> = (cx, cy)"
    by (simp only: x y floor_int_plus_half)
  finally show ?thesis
    by (simp only: c)
qed

theorem cell_pixel_roundtrip_witness:
  "(256::real) \<noteq> 0 \<and> (128::real) \<noteq> 0
   \<and> mapPixelToCellPoint exampleCfg (mapCellToPixelPoint exampleCfg (3, 17)) = (3, 17)"
  using cell_pixel_roundtrip [of 256 128 "(5120, 2560)" "(0.5, 0.5)" 20 "(1280, 720)" "(3, 17)"]
  by (simp add: exampleCfg_def)

text \<open>
  Claim C7: on a square map with positive tile width and height, for every
  world pixel point \<open>p\<close> the point
  \<open>mapCellToWorldPixelPoint (worldPixelToMapCellPoint p)\<close> is within one tile
  of \<open>p\<close>: the difference in x is less than the tile width in absolute value,
  and the difference in y is at most the tile height.
\<close>

theorem world_pixel_roundtrip:
  assumes "0 < tw" "0 < th"
  shows "\<bar>fst (mapCellToWorldPixelPoint (initMapConfig uit anchor (tw, th) (m, m) vsize)
                 (worldPixelToMapCellPoint (initMapConfig uit anchor (tw, th) (m, m) vsize) p))
           - fst p\<bar> < tw
       \<and> \<bar>snd (mapCellToWorldPixelPoint (initMapConfig uit anchor (tw, th) (m, m) vsize)
                 (worldPixelToMapCellPoint (initMapConfig uit anchor (tw, th) (m, m) vsize) p))
           - snd p\<bar> \<le> th"
proof -
  let ?cfg = "initMapConfig uit anchor (tw, th) (m, m) vsize"
  define a where "a = fst p / tw"
  define b where "b = snd p / th"
  define cx where "cx = \<lfloor>real_of_int m / 2 + a - b\<rfloor>"
  define cy where "cy = \<lfloor>3 * real_of_int m / 2 - a - b\<rfloor>"
  have px: "fst p = tw * a" and py: "snd p = th * b"
    using assms by (simp_all add: a_def b_def)
  have cell: "worldPixelToMapCellPoint ?cfg p = (cx, cy)"
    by (simp add: worldPixelToMapCellPoint_def initMapConfig_fields Let_def
        cx_def cy_def a_def b_def)
  define ex where "ex = real_of_int m / 2 - (real_of_int cy - real_of_int cx) / 2 - a"
  define ey where "ey = real_of_int m - 1 / 2 - (real_of_int cx + real_of_int cy) / 2 - b"
  have qx: "fst (mapCellToWorldPixelPoint ?cfg (cx, cy)) - fst p = tw * ex"
    by (simp add: mapCellToWorldPixelPoint_def initMapConfig_fields Let_def px ex_def
        field_simps)
  have qy: "snd (mapCellToWorldPixelPoint ?cfg (cx, cy)) - snd p = th * ey"
    by (simp add: mapCellToWorldPixelPoint_def initMapConfig_fields Let_def py ey_def
        field_simps)
  have ux: "real_of_int cx \<le> real_of_int m / 2 + a - b"
       "real_of_int m / 2 + a - b < real_of_int cx + 1"
    unfolding cx_def by linarith+
  have vy: "real_of_int cy \<le> 3 * real_of_int m / 2 - a - b"
       "3 * real_of_int m / 2 - a - b < real_of_int cy + 1"
    unfolding cy_def by linarith+
  have bx: "\<bar>ex\<bar> \<le> 1 / 2" unfolding ex_def using ux vy by argo
  have by': "\<bar>ey\<bar> \<le> 1 / 2" unfolding ey_def using ux vy by argo
  show ?thesis
    unfolding cell qx qy
    using scaled_abs_less [OF assms(1) bx] scaled_abs_less [OF assms(2) by'] by simp
qed

theorem world_pixel_roundtrip_witness:
  "(0::real) < 256 \<and> (0::real) < 128
   \<and> \<bar>fst (mapCellToWorldPixelPoint exampleCfg (worldPixelToMapCellPoint exampleCfg (1000, 700)))
        - 1000\<bar> < 256
   \<and> \<bar>snd (mapCellToWorldPixelPoint exampleCfg (worldPixelToMapCellPoint exampleCfg (1000, 700)))
        - 700\<bar> \<le> 128"
  using world_pixel_roundtrip [of 256 128 "(5120, 2560)" "(0.5, 0.5)" 20 "(1280, 720)"
      "(1000, 700)"]
  by (simp add: exampleCfg_def)

section \<open>Moving the centre\<close>

text \<open>
  Claim C8: when \<open>setCurCenterPoint\<close> is called with a cell equal in both
  components to the stored centre cell, it returns false, leaves the whole
  state (centre cell, centre area id, descriptor store, fetch queue) as it was
  and emits no notification; so a repeated identical call does the same again.
\<close>

theorem same_cell_is_noop:
  assumes "curCenterPoint s = Some c" and "fst c = fst point" and "snd c = snd point"
  shows "setCurCenterPoint cfg vsize s point pixelPoint = (False, s, [])
     \<and> setCurCenterPoint cfg vsize
         (fst (snd (setCurCenterPoint cfg vsize s point pixelPoint))) point pixelPoint
         = (False, s, [])"
  using assms by (simp add: setCurCenterPoint_def)

theorem same_cell_is_noop_witness:
  "curCenterPoint centredAt88 = Some (8, 8) \<and> fst (8::int, 8::int) = fst (8::int, 8::int)
   \<and> setCurCenterPoint exampleCfg exampleView centredAt88 (8, 8) (0, 192)
        = (False, centredAt88, [])"
proof -
  have c: "curCenterPoint centredAt88 = Some (8, 8)" by (simp add: centredAt88_def)
  from same_cell_is_noop [OF c refl refl, of exampleCfg exampleView "(0, 192)"] c
  show ?thesis by simp
qed

text \<open>
  Claim C9: when \<open>setCurCenterPoint\<close> is called with a cell that differs from
  the stored centre cell but lies in the area whose id is the stored centre
  area id, and that id is set (not \<open>-1\<close>), it returns true, stores the new
  centre cell and emits the centre-changed notification only; the centre area
  id, the descriptor store and the fetch queue stay as they were. (The area
  cell size is non-zero.)
\<close>

theorem same_area_moves_centre_only:
  assumes "fst (areaCellSize cfg) \<noteq> 0" and "snd (areaCellSize cfg) \<noteq> 0"
    and "curCenterPoint s \<noteq> Some point"
    and "curCenterAreaId s \<noteq> -1"
    and "getAreaIdByCellPoint cfg (fst point) (snd point) = curCenterAreaId s"
  shows "setCurCenterPoint cfg vsize s point pixelPoint =
           (True, s\<lparr>curCenterPoint := Some point\<rparr>, [mapEenterChange point])
     \<and> curCenterAreaId (fst (snd (setCurCenterPoint cfg vsize s point pixelPoint)))
         = curCenterAreaId s
     \<and> mapAreaDatas (fst (snd (setCurCenterPoint cfg vsize s point pixelPoint)))
         = mapAreaDatas s
     \<and> qryAreaIds (fst (snd (setCurCenterPoint cfg vsize s point pixelPoint)))
         = qryAreaIds s"
proof -
  have "setCurCenterPoint cfg vsize s point pixelPoint =
           (True, s\<lparr>curCenterPoint := Some point\<rparr>, [mapEenterChange point])"
    using assms(3-5)
    by (simp add: setCurCenterPoint_def moved_cond getAreaIdByCellPoint_def Let_def)
  then show ?thesis by simp
qed

theorem same_area_moves_centre_only_witness:
  "fst (areaCellSize exampleCfg) \<noteq> 0 \<and> snd (areaCellSize exampleCfg) \<noteq> 0
   \<and> curCenterPoint centredAt88 \<noteq> Some (9, 8)
   \<and> curCenterAreaId centredAt88 \<noteq> -1
   \<and> getAreaIdByCellPoint exampleCfg 9 8 = curCenterAreaId centredAt88
   \<and> setCurCenterPoint exampleCfg exampleView centredAt88 (9, 8) (128, 128) =
        (True, centredAt88\<lparr>curCenterPoint := Some (9, 8)\<rparr>, [mapEenterChange (9, 8)])"
proof -
  have h1: "fst (areaCellSize exampleCfg) \<noteq> 0" by (simp add: exampleCfg_fields)
  have h2: "snd (areaCellSize exampleCfg) \<noteq> 0" by (simp add: exampleCfg_fields)
  have h3: "curCenterPoint centredAt88 \<noteq> Some (9, 8)" by (simp add: centredAt88_def)
  have h4: "curCenterAreaId centredAt88 \<noteq> -1" by (simp add: centredAt88_def)
  have h5: "getAreaIdByCellPoint exampleCfg (fst (9::int, 8::int)) (snd (9::int, 8::int))
              = curCenterAreaId centredAt88"
    by (simp add: exampleCfg_areaId centredAt88_def)
  from same_area_moves_centre_only [OF h1 h2 h3 h4 h5, of exampleView "(128, 128)"]
  show ?thesis using h1 h2 h3 h4 h5 by simp
qed

section \<open>Area descriptors\<close>

text \<open>
  Claim C10: in a state whose store holds only descriptors built by
  \<open>getMapAreaData\<close>, with square area cells, for every valid area id \<open>i\<close> the
  descriptor returned by \<open>getMapAreaData i\<close> has id \<open>i\<close>, coordinates
  \<open>getAreaPointById i\<close>, start cell \<open>(x * side, y * side)\<close>, end cell
  \<open>(startCellX + side, startCellY + side)\<close> and length \<open>side\<close>, where \<open>side\<close> is
  the configured area side. The descriptor is created on first access: when
  the store has no entry for \<open>i\<close> the call builds the descriptor, with time
  stamp 0, and stores it under \<open>i\<close>; when the store has an entry for \<open>i\<close> the
  call returns that very entry and leaves the state as it is. In both cases
  the returned descriptor is the entry of \<open>i\<close> after the call, a second call
  with the same id returns the same descriptor and changes nothing, every
  other entry of the store is as before (none is altered or removed), and no
  other field of the state is touched.
\<close>

theorem descriptor_fields:
  assumes "storeOk cfg s" and "isVaildAreaId cfg i"
    and "fst (areaCellSize cfg) = snd (areaCellSize cfg)"
  shows "(let d = fst (getMapAreaData cfg s i); s' = snd (getMapAreaData cfg s i);
              side = fst (areaCellSize cfg)
          in area_id d = i
           \<and> (area_x d, area_y d) = getAreaPointById cfg i
           \<and> (startCellX d, startCellY d) = (area_x d * side, area_y d * side)
           \<and> (startCellX d, startCellY d) = getStartCellPointByAreaPoint cfg (area_x d) (area_y d)
           \<and> (endCellX d, endCellY d) = (startCellX d + side, startCellY d + side)
           \<and> (endCellX d, endCellY d) = getEndCellPointByAreaPoint cfg (area_x d) (area_y d)
           \<and> area_len d = side
           \<and> mapAreaDatas s' i = Some d
           \<and> (mapAreaDatas s i = None \<longrightarrow>
                 d = newMapAreaData cfg i \<and> qryStartTime d = 0
                 \<and> s' = s\<lparr>mapAreaDatas := (mapAreaDatas s)(i \<mapsto> d)\<rparr>)
           \<and> (\<forall>e. mapAreaDatas s i = Some e \<longrightarrow> d = e \<and> s' = s)
           \<and> (\<forall>k. k \<noteq> i \<longrightarrow> mapAreaDatas s' k = mapAreaDatas s k)
           \<and> getMapAreaData cfg s' i = (d, s')
           \<and> storeOk cfg s'
           \<and> (\<forall>k e. mapAreaDatas s k = Some e \<longrightarrow> mapAreaDatas s' k = Some e)
           \<and> curCenterPoint s' = curCenterPoint s
           \<and> curCenterAreaId s' = curCenterAreaId s
           \<and> qryAreaIds s' = qryAreaIds s)"
proof -
  let ?d = "fst (getMapAreaData cfg s i)"
  let ?s = "snd (getMapAreaData cfg s i)"
  have eq: "?d\<lparr>qryStartTime := 0\<rparr> = newMapAreaData cfg i"
    using assms(1) by (rule getMapAreaData_fst)
  have f1: "area_id ?d = i"
    using arg_cong [OF eq, of area_id] by (simp add: newMapAreaData_def Let_def)
  have f2: "area_x ?d = fst (getAreaPointById cfg i)"
    using arg_cong [OF eq, of area_x] by (simp add: newMapAreaData_def Let_def)
  have f3: "area_y ?d = snd (getAreaPointById cfg i)"
    using arg_cong [OF eq, of area_y] by (simp add: newMapAreaData_def Let_def)
  have f4: "startCellX ?d = area_x ?d * fst (areaCellSize cfg)"
    using arg_cong [OF eq, of startCellX] f2
    by (simp add: newMapAreaData_def Let_def getStartCellPointByAreaPoint_def)
  have f5: "startCellY ?d = area_y ?d * snd (areaCellSize cfg)"
    using arg_cong [OF eq, of startCellY] f3
    by (simp add: newMapAreaData_def Let_def getStartCellPointByAreaPoint_def)
  have f6: "endCellX ?d = startCellX ?d + fst (areaCellSize cfg)"
    using arg_cong [OF eq, of endCellX] arg_cong [OF eq, of startCellX]
    by (simp add: newMapAreaData_def Let_def)
  have f7: "endCellY ?d = startCellY ?d + fst (areaCellSize cfg)"
    using arg_cong [OF eq, of endCellY] arg_cong [OF eq, of startCellY]
    by (simp add: newMapAreaData_def Let_def)
  have f8: "area_len ?d = fst (areaCellSize cfg)"
    using arg_cong [OF eq, of area_len] by (simp add: newMapAreaData_def Let_def)
  have stored: "mapAreaDatas ?s i = Some ?d"
    by (simp add: getMapAreaData_def Let_def split: option.splits)
  have created: "mapAreaDatas s i = None \<longrightarrow>
      ?d = newMapAreaData cfg i \<and> qryStartTime ?d = 0
      \<and> ?s = s\<lparr>mapAreaDatas := (mapAreaDatas s)(i \<mapsto> ?d)\<rparr>"
    by (simp add: getMapAreaData_def Let_def newMapAreaData_qry)
  have found: "\<forall>e. mapAreaDatas s i = Some e \<longrightarrow> ?d = e \<and> ?s = s"
    by (simp add: getMapAreaData_def)
  have others: "\<forall>k. k \<noteq> i \<longrightarrow> mapAreaDatas ?s k = mapAreaDatas s k"
    by (simp add: getMapAreaData_def Let_def split: option.splits)
  have again: "getMapAreaData cfg ?s i = (?d, ?s)"
    by (simp add: getMapAreaData_again)
  have ok: "storeOk cfg ?s"
    using assms(1) by (rule getMapAreaData_storeOk)
  have keeps: "\<forall>k e. mapAreaDatas s k = Some e \<longrightarrow> mapAreaDatas ?s k = Some e"
    by (simp add: getMapAreaData_keeps)
  have frame: "curCenterPoint ?s = curCenterPoint s \<and> curCenterAreaId ?s = curCenterAreaId s
      \<and> qryAreaIds ?s = qryAreaIds s"
    by (simp add: getMapAreaData_frame)
  have fields: "area_id ?d = i
      \<and> (area_x ?d, area_y ?d) = getAreaPointById cfg i
      \<and> (startCellX ?d, startCellY ?d)
            = (area_x ?d * fst (areaCellSize cfg), area_y ?d * fst (areaCellSize cfg))
      \<and> (startCellX ?d, startCellY ?d)
            = getStartCellPointByAreaPoint cfg (area_x ?d) (area_y ?d)
      \<and> (endCellX ?d, endCellY ?d)
            = (startCellX ?d + fst (areaCellSize cfg), startCellY ?d + fst (areaCellSize cfg))
      \<and> (endCellX ?d, endCellY ?d) = getEndCellPointByAreaPoint cfg (area_x ?d) (area_y ?d)
      \<and> area_len ?d = fst (areaCellSize cfg)"
    using f1 f2 f3 f4 f5 f6 f7 f8 assms(3)
    by (simp add: getStartCellPointByAreaPoint_def getEndCellPointByAreaPoint_def
        algebra_simps)
  show ?thesis
    unfolding Let_def
    using fields stored created found others again ok keeps frame
    by blast
qed

theorem descriptor_fields_witness:
  "storeOk exampleCfg centredAt00 \<and> isVaildAreaId exampleCfg 4
   \<and> fst (areaCellSize exampleCfg) = snd (areaCellSize exampleCfg)
   \<and> mapAreaDatas centredAt00 4 = None
   \<and> fst (getMapAreaData exampleCfg centredAt00 4) =
       \<lparr> area_id = 4, area_x = 1, area_y = 1, startCellX = 8, startCellY = 8,
         endCellX = 16, endCellY = 16, area_len = 8, qryStartTime = 0 \<rparr>
   \<and> mapAreaDatas (snd (getMapAreaData exampleCfg centredAt00 4)) 4
       = Some (fst (getMapAreaData exampleCfg centredAt00 4))
   \<and> mapAreaDatas (snd (getMapAreaData exampleCfg centredAt00 4)) 0
       = Some (newMapAreaData exampleCfg 0)
   \<and> getMapAreaData exampleCfg (snd (getMapAreaData exampleCfg centredAt00 4)) 4
       = (fst (getMapAreaData exampleCfg centredAt00 4),
          snd (getMapAreaData exampleCfg centredAt00 4))
   \<and> storeOk exampleCfg
        (centredAt00\<lparr>mapAreaDatas :=
           [0 \<mapsto> (newMapAreaData exampleCfg 0)\<lparr>qryStartTime := 1700000000000\<rparr>]\<rparr>)
   \<and> isVaildAreaId exampleCfg 0
   \<and> getMapAreaData exampleCfg
        (centredAt00\<lparr>mapAreaDatas :=
           [0 \<mapsto> (newMapAreaData exampleCfg 0)\<lparr>qryStartTime := 1700000000000\<rparr>]\<rparr>) 0
       = ((newMapAreaData exampleCfg 0)\<lparr>qryStartTime := 1700000000000\<rparr>,
          centredAt00\<lparr>mapAreaDatas :=
           [0 \<mapsto> (newMapAreaData exampleCfg 0)\<lparr>qryStartTime := 1700000000000\<rparr>]\<rparr>)"
proof -
  let ?t = "centredAt00\<lparr>mapAreaDatas :=
           [0 \<mapsto> (newMapAreaData exampleCfg 0)\<lparr>qryStartTime := 1700000000000\<rparr>]\<rparr>"
  have a: "storeOk exampleCfg centredAt00" by (rule storeOk_centredAt00)
  have b: "isVaildAreaId exampleCfg 4"
    by (simp add: isVaildAreaId_def areaCount_def exampleCfg_fields)
  have c: "fst (areaCellSize exampleCfg) = snd (areaCellSize exampleCfg)"
    by (simp add: exampleCfg_fields)
  have n: "mapAreaDatas centredAt00 4 = None" by (simp add: centredAt00_def)
  have v: "newMapAreaData exampleCfg 4 =
       \<lparr> area_id = 4, area_x = 1, area_y = 1, startCellX = 8, startCellY = 8,
         endCellX = 16, endCellY = 16, area_len = 8, qryStartTime = 0 \<rparr>"
    by (simp add: newMapAreaData_def Let_def exampleCfg_areaPoint
        getStartCellPointByAreaPoint_def exampleCfg_fields)
  have e: "mapAreaDatas centredAt00 0 = Some (newMapAreaData exampleCfg 0)"
    by (simp add: centredAt00_def)
  note t = descriptor_fields [OF a b c, unfolded Let_def]
  from t n v have d: "fst (getMapAreaData exampleCfg centredAt00 4) =
       \<lparr> area_id = 4, area_x = 1, area_y = 1, startCellX = 8, startCellY = 8,
         endCellX = 16, endCellY = 16, area_len = 8, qryStartTime = 0 \<rparr>"
    by simp
  from t have st: "mapAreaDatas (snd (getMapAreaData exampleCfg centredAt00 4)) 4
       = Some (fst (getMapAreaData exampleCfg centredAt00 4))"
    by blast
  from t e have f: "mapAreaDatas (snd (getMapAreaData exampleCfg centredAt00 4)) 0
       = Some (newMapAreaData exampleCfg 0)"
    by blast
  from t have ag: "getMapAreaData exampleCfg (snd (getMapAreaData exampleCfg centredAt00 4)) 4
       = (fst (getMapAreaData exampleCfg centredAt00 4),
          snd (getMapAreaData exampleCfg centredAt00 4))"
    by blast
  have a': "storeOk exampleCfg ?t"
    by (simp add: storeOk_def centredAt00_def newMapAreaData_def Let_def)
  have b': "isVaildAreaId exampleCfg 0"
    by (simp add: isVaildAreaId_def areaCount_def exampleCfg_fields)
  have e': "mapAreaDatas ?t 0 = Some ((newMapAreaData exampleCfg 0)\<lparr>qryStartTime := 1700000000000\<rparr>)"
    by simp
  note u = descriptor_fields [OF a' b' c, unfolded Let_def]
  from u e' have g: "fst (getMapAreaData exampleCfg ?t 0)
        = (newMapAreaData exampleCfg 0)\<lparr>qryStartTime := 1700000000000\<rparr>
      \<and> snd (getMapAreaData exampleCfg ?t 0) = ?t"
    by blast
  then have h: "getMapAreaData exampleCfg ?t 0
      = ((newMapAreaData exampleCfg 0)\<lparr>qryStartTime := 1700000000000\<rparr>, ?t)"
    by (simp add: prod_eq_iff)
  from a b c n d st f ag a' b' h show ?thesis
    by blast
qed

section \<open>Area transitions\<close>

text \<open>
  Claim C4: in a state whose store holds only descriptors built by
  \<open>getMapAreaData\<close> (area dimensions non-zero), let \<open>setCurCenterPoint\<close> be
  called with a new cell whose area id differs from the stored centre area id,
  which is set, and let the descriptor of the previous centre area be fuzzily
  equal, with tolerance 3, to the descriptor of the new area. Then the call
  returns true, and the visible-areas notification carries as \<open>addIds\<close> the ids
  of \<open>get9GridVaildAreaIds\<close> of the new area that are not among those of the
  previous area, in the order of the new list, and as \<open>removeIds\<close> the ids of
  the previous neighbourhood that are not in the new one, in the order of the
  old list.
\<close>

theorem pan_add_remove_ids:
  assumes "storeOk cfg s"
    and "fst (areaCellSize cfg) \<noteq> 0" and "snd (areaCellSize cfg) \<noteq> 0"
    and "fst (areaSize cfg) \<noteq> 0"
    and "curCenterPoint s \<noteq> Some point"
    and "areaId = getAreaIdByCellPoint cfg (fst point) (snd point)"
    and "curCenterAreaId s \<noteq> -1"
    and "curCenterAreaId s \<noteq> areaId"
    and "fuzzyEquals (fst (getMapAreaData cfg s (curCenterAreaId s)))
           (Some (fst (getMapAreaData cfg s areaId))) 3"
  shows "fst (setCurCenterPoint cfg vsize s point pixelPoint) = True
     \<and> snd (snd (setCurCenterPoint cfg vsize s point pixelPoint)) =
         [mapEenterChange point,
          mapShowAreaChange point areaId
            (filter (\<lambda>i. i \<notin> set (get9GridVaildAreaIds cfg (curCenterAreaId s)))
               (get9GridVaildAreaIds cfg areaId))
            (filter (\<lambda>i. i \<notin> set (get9GridVaildAreaIds cfg areaId))
               (get9GridVaildAreaIds cfg (curCenterAreaId s)))]"
proof -
  have near:
    "\<bar>fst (getAreaPointById cfg areaId) - fst (getAreaPointById cfg (curCenterAreaId s))\<bar> \<le> 3
     \<and> \<bar>snd (getAreaPointById cfg areaId) - snd (getAreaPointById cfg (curCenterAreaId s))\<bar> \<le> 3"
    using assms(9) by (simp add: fuzzyEquals_coords getMapAreaData_coords [OF assms(1)])
  show ?thesis
    using setCurCenterPoint_pan(1,2) [OF assms(1) assms(5) assms(6) assms(7) assms(8)
        conjunct1 [OF near] conjunct2 [OF near] refl refl, of vsize pixelPoint]
    by simp
qed

theorem pan_add_remove_ids_witness:
  "storeOk exampleCfg centredAt00
   \<and> fst (areaCellSize exampleCfg) \<noteq> 0 \<and> snd (areaCellSize exampleCfg) \<noteq> 0
   \<and> fst (areaSize exampleCfg) \<noteq> 0
   \<and> curCenterPoint centredAt00 \<noteq> Some (16, 16)
   \<and> 8 = getAreaIdByCellPoint exampleCfg 16 16
   \<and> curCenterAreaId centredAt00 \<noteq> -1
   \<and> curCenterAreaId centredAt00 \<noteq> 8
   \<and> fuzzyEquals (fst (getMapAreaData exampleCfg centredAt00 (curCenterAreaId centredAt00)))
        (Some (fst (getMapAreaData exampleCfg centredAt00 8))) 3
   \<and> fst (setCurCenterPoint exampleCfg exampleView centredAt00 (16, 16)
             (mapCellToPixelPoint exampleCfg (16, 16))) = True
   \<and> snd (snd (setCurCenterPoint exampleCfg exampleView centredAt00 (16, 16)
                  (mapCellToPixelPoint exampleCfg (16, 16)))) =
        [mapEenterChange (16, 16), mapShowAreaChange (16, 16) 8 [7, 8, 5, 6] [2, 3, 0, 1]]"
proof -
  have h1: "storeOk exampleCfg centredAt00" by (rule storeOk_centredAt00)
  have h2: "fst (areaCellSize exampleCfg) \<noteq> 0" by (simp add: exampleCfg_fields)
  have h3: "snd (areaCellSize exampleCfg) \<noteq> 0" by (simp add: exampleCfg_fields)
  have h4: "fst (areaSize exampleCfg) \<noteq> 0" by (simp add: exampleCfg_fields)
  have h5: "curCenterPoint centredAt00 \<noteq> Some (16, 16)" by (simp add: centredAt00_def)
  have h6: "8 = getAreaIdByCellPoint exampleCfg (fst (16::int, 16::int)) (snd (16::int, 16::int))"
    by (simp add: exampleCfg_areaId)
  have cur: "curCenterAreaId centredAt00 = 0" by (simp add: centredAt00_def)
  have h7: "curCenterAreaId centredAt00 \<noteq> -1" by (simp add: centredAt00_def)
  have h8: "curCenterAreaId centredAt00 \<noteq> 8" by (simp add: centredAt00_def)
  have h9: "fuzzyEquals (fst (getMapAreaData exampleCfg centredAt00 (curCenterAreaId centredAt00)))
        (Some (fst (getMapAreaData exampleCfg centredAt00 8))) 3"
    by (simp add: fuzzyEquals_coords getMapAreaData_coords [OF h1] exampleCfg_areaPoint cur)
  from pan_add_remove_ids [OF h1 h2 h3 h4 h5 h6 h7 h8 h9, of exampleView
      "mapCellToPixelPoint exampleCfg (16, 16)"]
  show ?thesis
    using h1 h2 h3 h4 h5 h6 h7 h8 h9 by (simp add: cur exampleCfg_get9)
qed

text \<open>
  Claim C2 says that in the example (map 20 by 20 cells, area side 8, area
  grid 3 by 3), from the unset centre, \<open>setCurCenterPoint\<close> with cell (0, 0)
  makes an area transition with empty \<open>removeIds\<close> and with \<open>addIds\<close> the
  clipped 9-neighbourhood of area 0, which has exactly 4 ids. The code at this
  input: the transition happens and \<open>removeIds\<close> is empty, but \<open>addIds\<close> is
  \<open>[2, 3, 4, 0, 1]\<close>, 5 ids. The raw 9-grid of id 0 holds \<open>0 + 3 - 1 = 2\<close> for
  the neighbour at area coordinates (-1, 1), and \<open>isVaildAreaId\<close> tests the id
  range only, so the id of area (2, 0) stays in the list.
\<close>

theorem first_centre_at_corner:
  "setCurCenterPoint exampleCfg exampleView initialProxy (0, 0)
       (mapCellToPixelPoint exampleCfg (0, 0))
     = (True, centredAt00,
        [mapEenterChange (0, 0), mapShowAreaChange (0, 0) 0 [2, 3, 4, 0, 1] []])
   \<and> get9GridAreaIds exampleCfg 0 = [2, 3, 4, -1, 0, 1, -4, -3, -2]
   \<and> get9GridVaildAreaIds exampleCfg 0 = [2, 3, 4, 0, 1]
   \<and> getAreaPointById exampleCfg 2 = (2, 0)
   \<and> length (get9GridVaildAreaIds exampleCfg 0) = 5"
  using exampleCfg_areaId(1)
  by (simp add: setCurCenterPoint_def initialProxy_def centredAt00_def Let_def
      getAreaIdByCellPoint_def getMapAreaData_def newMapAreaData_coords buildQryIndexs_def
      exampleCfg_get9 exampleCfg_pixel exampleCfg_screen pushNotIn_filter
      get9GridAreaIds_def getAreaPointById_def jsRem_def floorDiv_div exampleCfg_fields)

theorem first_centre_at_corner_witness:
  "snd (snd (setCurCenterPoint exampleCfg exampleView initialProxy (0, 0)
               (mapCellToPixelPoint exampleCfg (0, 0))))
     = [mapEenterChange (0, 0), mapShowAreaChange (0, 0) 0 [2, 3, 4, 0, 1] []]
   \<and> qryAreaIds (fst (snd (setCurCenterPoint exampleCfg exampleView initialProxy (0, 0)
                            (mapCellToPixelPoint exampleCfg (0, 0)))))
     = [0, 2, 3, 4, 1]"
  using first_centre_at_corner by (simp add: centredAt00_def)

text \<open>
  Claim C1 says that on an incremental transition the priority list is
  \<open>[newAreaId]\<close> when \<open>newAreaId\<close> is in \<open>addIds\<close> and empty otherwise, and that
  the fetch queue grows by the priority list followed by the remaining
  \<open>addIds\<close>. The code at the move from cell (8, 8), area 4, to cell (16, 8),
  area 5: \<open>addIds\<close> is empty, so area 5 is not in it, yet the priority list is
  \<open>[5]\<close> and the queue grows by \<open>[5]\<close>. The source tests
  \<open>addIds.indexOf(areaData.id)\<close> as a condition, which is true for \<open>-1\<close>.
\<close>

theorem pan_requeries_centre:
  "incrementalIds (get9GridVaildAreaIds exampleCfg 5) (get9GridVaildAreaIds exampleCfg 4) 5
     = ([], [0], Some [5])
   \<and> setCurCenterPoint exampleCfg exampleView centredAt88 (16, 8)
        (mapCellToPixelPoint exampleCfg (16, 8))
     = (True,
        centredAt88\<lparr>curCenterPoint := Some (16, 8), curCenterAreaId := 5,
           mapAreaDatas := [4 \<mapsto> newMapAreaData exampleCfg 4, 5 \<mapsto> newMapAreaData exampleCfg 5],
           qryAreaIds := qryAreaIds centredAt88 @ [5]\<rparr>,
        [mapEenterChange (16, 8), mapShowAreaChange (16, 8) 5 [] [0]])"
  using exampleCfg_areaId(4)
  by (simp add: setCurCenterPoint_def centredAt88_def Let_def
      getAreaIdByCellPoint_def getMapAreaData_def buildQryIndexs_def incrementalIds_def
      exampleCfg_get9 pushNotIn_filter fuzzyEquals_coords truthy_def indexOf_def
      newMapAreaData_coords exampleCfg_areaPoint)

theorem pan_requeries_centre_witness:
  "snd (snd (setCurCenterPoint exampleCfg exampleView centredAt88 (16, 8)
               (mapCellToPixelPoint exampleCfg (16, 8))))
     = [mapEenterChange (16, 8), mapShowAreaChange (16, 8) 5 [] [0]]
   \<and> qryAreaIds (fst (snd (setCurCenterPoint exampleCfg exampleView centredAt88 (16, 8)
                            (mapCellToPixelPoint exampleCfg (16, 8)))))
     = [4, 3, 1, 6, 7, 8, 5, 0, 2, 5]"
  using pan_requeries_centre by (simp add: centredAt88_def)

end
